theory Spec2Isabelle
  imports Complex_Main
begin

section \<open>Python values, errors and sequencing\<close>

text \<open>
  The development embeds \<^verbatim>\<open>src/evaluation/token_relevance_evaluation.py\<close>.
  Every exception the source can raise is a value: a computation that may raise has the
  type \<open>py_error + 'a\<close> with \<open>Inl\<close> for the exception. \<open>ExternalError\<close> stands for any
  exception raised inside a collaborator that is not part of the evaluated file
  (the loss oracle, the embedding provider, the soft-prompt loader).

  A Python \<^verbatim>\<open>float\<close> is modelled by the rational number it denotes, with exact
  arithmetic: rounding, infinities and not-a-number are outside the model.
\<close>

datatype py_error =
    FileNotFoundError
  | IndexError
  | ValueError
  | ZeroDivisionError
  | ExternalError string

type_synonym pyfloat = rat

type_synonym tensor = "rat list list"

definition bind_err :: "py_error + 'a \<Rightarrow> ('a \<Rightarrow> py_error + 'b) \<Rightarrow> py_error + 'b" where
  "bind_err m f = (case m of Inl e \<Rightarrow> Inl e | Inr v \<Rightarrow> f v)"

text \<open>\<^verbatim>\<open>xs[i]\<close> for a non-negative index: out of range raises IndexError.\<close>

definition getitem :: "'a list \<Rightarrow> nat \<Rightarrow> py_error + 'a" where
  "getitem xs i = (if i < length xs then Inr (xs ! i) else Inl IndexError)"

text \<open>
  A list comprehension (or generator consumed in order) whose element expression may
  raise: the first exception in iteration order ends it.
\<close>

fun traverse :: "('a \<Rightarrow> py_error + 'b) \<Rightarrow> 'a list \<Rightarrow> py_error + 'b list" where
  "traverse f [] = Inr []"
| "traverse f (x # xs) =
     (case f x of
        Inl e \<Rightarrow> Inl e
      | Inr y \<Rightarrow> (case traverse f xs of Inl e \<Rightarrow> Inl e | Inr ys \<Rightarrow> Inr (y # ys)))"

subsection \<open>Text of integers\<close>

text \<open>\<^verbatim>\<open>str(n)\<close> for an int: decimal digits, a leading minus sign when negative.\<close>

fun str_nat :: "nat \<Rightarrow> string" where
  "str_nat n =
     (if n < 10 then [''0123456789'' ! n]
      else str_nat (n div 10) @ [''0123456789'' ! (n mod 10)])"

declare str_nat.simps [simp del]

definition str_int :: "int \<Rightarrow> string" where
  "str_int i = (if i < 0 then CHR ''-'' # str_nat (nat (- i)) else str_nat (nat i))"

text \<open>\<^verbatim>\<open>sep.join(parts)\<close>.\<close>

fun join :: "string \<Rightarrow> string list \<Rightarrow> string" where
  "join sep [] = []"
| "join sep [x] = x"
| "join sep (x # y # ys) = x @ sep @ join sep (y # ys)"

section \<open>The evaluator and its collaborators\<close>

text \<open>
  The constructor arguments of \<^verbatim>\<open>Token_Relevance_Evaluation\<close>. The field
  \<open>knn_k\<close> is the attribute \<^verbatim>\<open>self.k\<close> and \<open>config_path\<close> is
  \<^verbatim>\<open>self.config\<close>; \<open>model_names\<close> is what the constructor obtains from
  \<^verbatim>\<open>get_model_names_from_numbers\<close>.
\<close>

record evaluator =
  soft_prompt_name :: string
  model_numbers :: "int list"
  model_names :: "string list"
  config_path :: string
  accelerator :: string
  prompt_length :: int
  embedding_size :: int
  knn_k :: int
  batch_size :: int
  use_test_set :: bool

text \<open>
  The functions the evaluated file imports from modules that are not part of it
  (\<^verbatim>\<open>prompt_token_drop_out\<close>, \<^verbatim>\<open>prompt_shortener\<close>, \<^verbatim>\<open>utils\<close>),
  and the two primitives of the Python runtime that turn a float into the text of a CSV
  cell and back (\<^verbatim>\<open>str\<close>/\<^verbatim>\<open>repr\<close> as used by \<^verbatim>\<open>csv.writer\<close>, and
  \<^verbatim>\<open>float\<close>). They are parameters of the model; nothing is assumed about them
  unless a theorem says so. The neighbour lists hold row indices of the embedding space,
  which are natural numbers.

  \<open>validate_prompt\<close> receives the evaluator (for the keyword arguments that are copied
  from it) and the four arguments that vary: \<^verbatim>\<open>model_number\<close>,
  \<^verbatim>\<open>dropped_out_tokens\<close>, \<^verbatim>\<open>inverse\<close>, \<^verbatim>\<open>shorten\<close>.
\<close>

record env =
  prompt_token_drop_out :: "evaluator \<Rightarrow> py_error + (int list \<times> pyfloat list)"
  validate_soft_prompt_on_multiple_models :: "evaluator \<Rightarrow> py_error + pyfloat list"
  validate_prompt :: "evaluator \<Rightarrow> int \<Rightarrow> nat list \<Rightarrow> bool \<Rightarrow> bool \<Rightarrow> py_error + pyfloat"
  get_model_embedding_spaces :: "string list \<Rightarrow> py_error + (tensor \<times> int list)"
  load_soft_prompt_weight :: "string \<Rightarrow> py_error + tensor"
  get_k_nearest_neighbors_for_all_tokens ::
    "string \<Rightarrow> tensor \<Rightarrow> tensor \<Rightarrow> int \<Rightarrow> py_error + nat list list"
  float_repr :: "pyfloat \<Rightarrow> string"
  py_float :: "string \<Rightarrow> py_error + pyfloat"

section \<open>Nearest-neighbour vote\<close>

text \<open>
  \<^verbatim>\<open>collections.Counter\<close>: a dictionary from element to count that keeps the order
  of first insertion, here an association list. \<^verbatim>\<open>most_common()\<close> sorts the items
  by count, largest first; the sort is stable, so among equal counts the element
  encountered first stays first.
\<close>

fun counter_add :: "'a \<Rightarrow> ('a \<times> nat) list \<Rightarrow> ('a \<times> nat) list" where
  "counter_add x [] = [(x, 1)]"
| "counter_add x ((y, c) # rest) =
     (if x = y then (y, Suc c) # rest else (y, c) # counter_add x rest)"

definition Counter :: "'a list \<Rightarrow> ('a \<times> nat) list" where
  "Counter xs = foldl (\<lambda>cnt x. counter_add x cnt) [] xs"

definition most_common :: "('a \<times> nat) list \<Rightarrow> ('a \<times> nat) list" where
  "most_common cnt = sort_key (\<lambda>item. - int (snd item)) cnt"

text \<open>
  The loop of \<^verbatim>\<open>nearest_neighbor_vote\<close> over the tokens' neighbour lists, with the
  list \<^verbatim>\<open>nn_votes\<close> it appends to. \<^verbatim>\<open>labels[neighbor]\<close> raises IndexError out of
  range, \<^verbatim>\<open>most_common()[0]\<close> raises IndexError when there is no neighbour, and
  \<^verbatim>\<open>most_common[1] / self.k\<close> raises ZeroDivisionError when \<^verbatim>\<open>self.k\<close> is 0.
\<close>

fun vote_loop ::
  "int \<Rightarrow> 'l list \<Rightarrow> ('l \<times> pyfloat) list \<Rightarrow> nat list list \<Rightarrow> py_error + ('l \<times> pyfloat) list"
where
  "vote_loop kk labels nn_votes [] = Inr nn_votes"
| "vote_loop kk labels nn_votes (token_neighbors # rest) =
     (case traverse (getitem labels) token_neighbors of
        Inl e \<Rightarrow> Inl e
      | Inr neighbor_labels \<Rightarrow>
          (case most_common (Counter neighbor_labels) of
             [] \<Rightarrow> Inl IndexError
           | mc # _ \<Rightarrow>
               if kk = 0 then Inl ZeroDivisionError
               else vote_loop kk labels
                      (nn_votes @ [(fst mc, of_nat (snd mc) / of_int kk)]) rest))"

definition nearest_neighbor_vote ::
  "env \<Rightarrow> evaluator \<Rightarrow> string \<Rightarrow> tensor \<Rightarrow> tensor \<Rightarrow> int list \<Rightarrow> py_error + (int \<times> pyfloat) list"
where
  "nearest_neighbor_vote E self distance_metric soft_prompt_weight model_embedding_spaces labels =
     (case get_k_nearest_neighbors_for_all_tokens E distance_metric soft_prompt_weight
             model_embedding_spaces (knn_k self) of
        Inl e \<Rightarrow> Inl e
      | Inr nearest_neighbors \<Rightarrow> vote_loop (knn_k self) labels [] nearest_neighbors)"

section \<open>Agreement and accuracy\<close>

text \<open>
  The three kinds of expression in \<^verbatim>\<open>nn_evaluation\<close>. Each indexes both sequences
  at every \<^verbatim>\<open>i in range(len(votes))\<close>, so a shorter second sequence raises
  IndexError; the numerator is computed before the denominator, and a zero denominator
  raises ZeroDivisionError. \<^verbatim>\<open>True * c\<close> is \<^verbatim>\<open>c\<close> and \<^verbatim>\<open>False * c\<close> is 0.
\<close>

definition accuracy :: "('l \<times> pyfloat) list \<Rightarrow> 'l list \<Rightarrow> py_error + pyfloat" where
  "accuracy votes model_per_token =
     (case traverse (\<lambda>i. bind_err (getitem votes i) (\<lambda>v.
                          bind_err (getitem model_per_token i) (\<lambda>m. Inr (fst v = m))))
             [0..<length votes] of
        Inl e \<Rightarrow> Inl e
      | Inr hits \<Rightarrow>
          if length votes = 0 then Inl ZeroDivisionError
          else Inr (of_nat (length (filter id hits)) / of_nat (length votes)))"

definition waccuracy :: "('l \<times> pyfloat) list \<Rightarrow> 'l list \<Rightarrow> py_error + pyfloat" where
  "waccuracy votes model_per_token =
     (case traverse (\<lambda>i. bind_err (getitem votes i) (\<lambda>v.
                          bind_err (getitem model_per_token i) (\<lambda>m.
                          bind_err (getitem votes i) (\<lambda>v'.
                            Inr ((if fst v = m then 1 else 0) * snd v')))))
             [0..<length votes] of
        Inl e \<Rightarrow> Inl e
      | Inr weighted_hits \<Rightarrow>
          (case traverse (\<lambda>i. bind_err (getitem votes i) (\<lambda>v. Inr (snd v)))
                  [0..<length votes] of
             Inl e \<Rightarrow> Inl e
           | Inr certainties \<Rightarrow>
               if sum_list certainties = 0 then Inl ZeroDivisionError
               else Inr (sum_list weighted_hits / sum_list certainties)))"

definition vote_agreement ::
  "('l \<times> pyfloat) list \<Rightarrow> ('l \<times> pyfloat) list \<Rightarrow> py_error + pyfloat"
where
  "vote_agreement euc_votes cos_votes =
     (case traverse (\<lambda>i. bind_err (getitem euc_votes i) (\<lambda>v.
                          bind_err (getitem cos_votes i) (\<lambda>v'. Inr (fst v = fst v'))))
             [0..<length euc_votes] of
        Inl e \<Rightarrow> Inl e
      | Inr hits \<Rightarrow>
          if length euc_votes = 0 then Inl ZeroDivisionError
          else Inr (of_nat (length (filter id hits)) / of_nat (length euc_votes)))"

text \<open>The attributes \<^verbatim>\<open>nn_evaluation\<close> sets, in the order it sets them.\<close>

record nn_attrs =
  nn_euc_nn_votes :: "(int \<times> pyfloat) list"
  nn_cos_nn_votes :: "(int \<times> pyfloat) list"
  nn_euc_accuracy :: pyfloat
  nn_cos_accuracy :: pyfloat
  nn_euc_waccuracy :: pyfloat
  nn_cos_waccuracy :: pyfloat
  nn_euc_to_cos_accuracy :: pyfloat

definition nn_evaluation :: "env \<Rightarrow> evaluator \<Rightarrow> int list \<Rightarrow> py_error + nn_attrs" where
  "nn_evaluation E self model_per_token =
     bind_err (get_model_embedding_spaces E (model_names self)) (\<lambda>(model_embedding_spaces, labels).
     bind_err (load_soft_prompt_weight E (soft_prompt_name self)) (\<lambda>soft_prompt_weight.
     bind_err (nearest_neighbor_vote E self ''euclidean'' soft_prompt_weight
                 model_embedding_spaces labels) (\<lambda>euc_votes.
     bind_err (nearest_neighbor_vote E self ''cosine'' soft_prompt_weight
                 model_embedding_spaces labels) (\<lambda>cos_votes.
     bind_err (accuracy euc_votes model_per_token) (\<lambda>euc_acc.
     bind_err (accuracy cos_votes model_per_token) (\<lambda>cos_acc.
     bind_err (waccuracy euc_votes model_per_token) (\<lambda>euc_wacc.
     bind_err (waccuracy cos_votes model_per_token) (\<lambda>cos_wacc.
     bind_err (vote_agreement euc_votes cos_votes) (\<lambda>euc_to_cos.
       Inr \<lparr> nn_euc_nn_votes = euc_votes, nn_cos_nn_votes = cos_votes,
             nn_euc_accuracy = euc_acc, nn_cos_accuracy = cos_acc,
             nn_euc_waccuracy = euc_wacc, nn_cos_waccuracy = cos_wacc,
             nn_euc_to_cos_accuracy = euc_to_cos \<rparr>)))))))))"

section \<open>The world: persisted files and the loss oracle\<close>

text \<open>
  The file system maps a path to the rows of the CSV file stored there, each row a list
  of cell texts: this is what \<^verbatim>\<open>csv.reader\<close> returns for what
  \<^verbatim>\<open>csv.writer\<close> wrote, the writer turning every value into its text. The
  directory of the report is the soft prompt's checkpoint directory and is taken to
  exist, so opening the file for writing succeeds.

  Every call to the loss oracle (\<^verbatim>\<open>prompt_token_drop_out\<close>,
  \<^verbatim>\<open>validate_soft_prompt_on_multiple_models\<close>, \<^verbatim>\<open>validate_prompt\<close>) is
  recorded, with the arguments that vary, at the moment it is made.
\<close>

datatype oracle_call =
    Call_prompt_token_drop_out
  | Call_validate_soft_prompt_on_multiple_models
  | Call_validate_prompt int "nat list" bool bool

record world =
  files :: "string \<Rightarrow> string list list option"
  oracle_calls :: "oracle_call list"

definition log_call :: "oracle_call \<Rightarrow> world \<Rightarrow> world" where
  "log_call c w = w\<lparr>oracle_calls := oracle_calls w @ [c]\<rparr>"

section \<open>Loss evaluation\<close>

text \<open>
  \<^verbatim>\<open>[j for j, x in enumerate(self.model_per_token) if x == model_number]\<close>
\<close>

definition tokens_to_keep_of :: "int list \<Rightarrow> int \<Rightarrow> nat list" where
  "tokens_to_keep_of model_per_token model_number =
     map fst (filter (\<lambda>(j, x). x = model_number) (enumerate 0 model_per_token))"

text \<open>
  The loop over \<^verbatim>\<open>self.model_numbers\<close>, with the two lists it appends to. The
  dictionary \<^verbatim>\<open>prompt_shorten_args\<close> is built once per model with
  \<^verbatim>\<open>inverse = True, shorten = False\<close>; the second call differs only in
  \<^verbatim>\<open>shorten = True\<close>.
\<close>

fun shorten_loop ::
  "env \<Rightarrow> evaluator \<Rightarrow> int list \<Rightarrow> int list \<Rightarrow> pyfloat list \<times> pyfloat list \<Rightarrow> world
     \<Rightarrow> (py_error + pyfloat list \<times> pyfloat list) \<times> world"
where
  "shorten_loop E self model_per_token [] acc w = (Inr acc, w)"
| "shorten_loop E self model_per_token (model_number # rest) acc w =
     (let tokens_to_keep = tokens_to_keep_of model_per_token model_number;
          w1 = log_call (Call_validate_prompt model_number tokens_to_keep True False) w
      in case validate_prompt E self model_number tokens_to_keep True False of
           Inl e \<Rightarrow> (Inl e, w1)
         | Inr masked \<Rightarrow>
             (let w2 = log_call (Call_validate_prompt model_number tokens_to_keep True True) w1
              in case validate_prompt E self model_number tokens_to_keep True True of
                   Inl e \<Rightarrow> (Inl e, w2)
                 | Inr compressed \<Rightarrow>
                     shorten_loop E self model_per_token rest
                       (fst acc @ [masked], snd acc @ [compressed]) w2))"

text \<open>The attributes \<^verbatim>\<open>loss_evaluation\<close> sets.\<close>

record loss_attrs =
  la_model_per_token :: "int list"
  la_model_loss_per_token :: "pyfloat list"
  la_individual_model_loss :: "pyfloat list"
  la_masked_loss :: "pyfloat list"
  la_compressed_loss :: "pyfloat list"

definition loss_evaluation :: "env \<Rightarrow> evaluator \<Rightarrow> world \<Rightarrow> (py_error + loss_attrs) \<times> world" where
  "loss_evaluation E self w =
     (let w1 = log_call Call_prompt_token_drop_out w
      in case prompt_token_drop_out E self of
           Inl e \<Rightarrow> (Inl e, w1)
         | Inr (mpt, mlpt) \<Rightarrow>
             (let w2 = log_call Call_validate_soft_prompt_on_multiple_models w1
              in case validate_soft_prompt_on_multiple_models E self of
                   Inl e \<Rightarrow> (Inl e, w2)
                 | Inr individual \<Rightarrow>
                     (case shorten_loop E self mpt (model_numbers self) ([], []) w2 of
                        (Inl e, w3) \<Rightarrow> (Inl e, w3)
                      | (Inr (masked, compressed), w3) \<Rightarrow>
                          (Inr \<lparr> la_model_per_token = mpt, la_model_loss_per_token = mlpt,
                                 la_individual_model_loss = individual,
                                 la_masked_loss = masked, la_compressed_loss = compressed \<rparr>,
                           w3))))"

section \<open>The report and the Result Store\<close>

text \<open>
  The result attributes of the evaluator. After a computation the labels are ints and a
  vote is a pair of a label and a certainty; after \<^verbatim>\<open>read_from_csv\<close> the same
  attributes hold cell texts, so the record is polymorphic in both.
\<close>

record ('l, 'v) report =
  model_per_token :: "'l list"
  model_loss_per_token :: "pyfloat list"
  individual_model_loss :: "pyfloat list"
  masked_loss :: "pyfloat list"
  compressed_loss :: "pyfloat list"
  euc_nn_votes :: "'v list"
  cos_nn_votes :: "'v list"
  euc_accuracy :: pyfloat
  cos_accuracy :: pyfloat
  euc_waccuracy :: pyfloat
  cos_waccuracy :: pyfloat
  euc_to_cos_accuracy :: pyfloat

type_synonym computed_report = "(int, int \<times> pyfloat) report"
type_synonym loaded_report = "(string, string) report"

definition report_of :: "loss_attrs \<Rightarrow> nn_attrs \<Rightarrow> computed_report" where
  "report_of la na =
     \<lparr> model_per_token = la_model_per_token la,
       model_loss_per_token = la_model_loss_per_token la,
       individual_model_loss = la_individual_model_loss la,
       masked_loss = la_masked_loss la,
       compressed_loss = la_compressed_loss la,
       euc_nn_votes = nn_euc_nn_votes na,
       cos_nn_votes = nn_cos_nn_votes na,
       euc_accuracy = nn_euc_accuracy na,
       cos_accuracy = nn_cos_accuracy na,
       euc_waccuracy = nn_euc_waccuracy na,
       cos_waccuracy = nn_cos_waccuracy na,
       euc_to_cos_accuracy = nn_euc_to_cos_accuracy na \<rparr>"

text \<open>
  \<^verbatim>\<open>numpy.mean\<close> of a non-empty list of floats, and the text of the cell
  \<^verbatim>\<open>[np.mean(xs)]\<close>. For the empty list numpy returns not-a-number (with a
  warning, no exception), which is no value of the model; its text is \<^verbatim>\<open>nan\<close>.
\<close>

definition np_mean :: "pyfloat list \<Rightarrow> pyfloat" where
  "np_mean xs = sum_list xs / of_nat (length xs)"

definition mean_cell :: "env \<Rightarrow> pyfloat list \<Rightarrow> string" where
  "mean_cell E xs = (if xs = [] then ''nan'' else float_repr E (np_mean xs))"

definition writerow :: "string list \<Rightarrow> string list list \<Rightarrow> string list list" where
  "writerow row f = f @ [row]"

text \<open>The rows \<^verbatim>\<open>save_results\<close> writes, one \<^verbatim>\<open>writerow\<close> after the other.\<close>

definition save_rows :: "env \<Rightarrow> evaluator \<Rightarrow> computed_report \<Rightarrow> string list list" where
  "save_rows E self r =
     (let f = [];
          f = writerow (''token id'' # map (\<lambda>i. str_int (int i)) [0..<nat (prompt_length self)]) f;
          f = writerow (''Loss assignment'' # map str_int (model_per_token r)) f;
          f = writerow (''Euclidean assignment'' #
                map (\<lambda>i. str_int (fst (euc_nn_votes r ! i))) [0..<length (euc_nn_votes r)]) f;
          f = writerow (''Cosine assignment'' #
                map (\<lambda>i. str_int (fst (cos_nn_votes r ! i))) [0..<length (cos_nn_votes r)]) f;
          f = writerow (''Loss'' # map (float_repr E) (model_loss_per_token r)) f;
          f = writerow (''Euclidean certanty'' #
                map (\<lambda>i. float_repr E (snd (euc_nn_votes r ! i))) [0..<length (euc_nn_votes r)]) f;
          f = writerow (''Cosine certanty'' #
                map (\<lambda>i. float_repr E (snd (cos_nn_votes r ! i))) [0..<length (cos_nn_votes r)]) f;
          f = writerow [''''] f;
          f = writerow (''Euclidean accuracy'' # [float_repr E (euc_accuracy r)]) f;
          f = writerow (''Cosine accuracy'' # [float_repr E (cos_accuracy r)]) f;
          f = writerow (''Euclidean weighted accuracy'' # [float_repr E (euc_waccuracy r)]) f;
          f = writerow (''Cosine weighted accuracy'' # [float_repr E (cos_waccuracy r)]) f;
          f = writerow (''Euclidean to cosine accuracy'' # [float_repr E (euc_to_cos_accuracy r)]) f;
          f = writerow [''''] f;
          f = writerow (''Prompt compression'' # model_names self @ [''average'']) f;
          f = writerow (''Normal prompt length'' # map (float_repr E) (masked_loss r)
                          @ [mean_cell E (masked_loss r)]) f;
          f = writerow (''Shortened prompt length'' # map (float_repr E) (compressed_loss r)
                          @ [mean_cell E (compressed_loss r)]) f;
          f = writerow (''One model loss'' # map (float_repr E) (individual_model_loss r)
                          @ [mean_cell E (individual_model_loss r)]) f
      in f)"

definition save_results :: "env \<Rightarrow> evaluator \<Rightarrow> computed_report \<Rightarrow> string \<Rightarrow> world \<Rightarrow> world" where
  "save_results E self r path w = w\<lparr>files := (files w)(path \<mapsto> save_rows E self r)\<rparr>"

text \<open>
  The body of \<^verbatim>\<open>read_from_csv\<close> once the file is open. \<^verbatim>\<open>rows[i]\<close> raises
  IndexError when the file has too few rows, \<^verbatim>\<open>rows[i][1:]\<close> is a slice and
  never raises, \<^verbatim>\<open>rows[i][1]\<close> raises IndexError on a row with fewer than two
  cells, and \<^verbatim>\<open>float\<close> raises ValueError on a cell that is not a number.
\<close>

definition read_rows :: "env \<Rightarrow> string list list \<Rightarrow> py_error + loaded_report" where
  "read_rows E rows =
     bind_err (getitem rows 1) (\<lambda>row1.
     bind_err (getitem rows 2) (\<lambda>row2.
     bind_err (getitem rows 3) (\<lambda>row3.
     bind_err (getitem rows 4) (\<lambda>row4.
     bind_err (traverse (py_float E) (drop 1 row4)) (\<lambda>mlpt.
     bind_err (getitem rows 8) (\<lambda>row8. bind_err (getitem row8 1) (\<lambda>c8.
     bind_err (py_float E c8) (\<lambda>euc_acc.
     bind_err (getitem rows 9) (\<lambda>row9. bind_err (getitem row9 1) (\<lambda>c9.
     bind_err (py_float E c9) (\<lambda>cos_acc.
     bind_err (getitem rows 10) (\<lambda>row10. bind_err (getitem row10 1) (\<lambda>c10.
     bind_err (py_float E c10) (\<lambda>euc_wacc.
     bind_err (getitem rows 11) (\<lambda>row11. bind_err (getitem row11 1) (\<lambda>c11.
     bind_err (py_float E c11) (\<lambda>cos_wacc.
     bind_err (getitem rows 12) (\<lambda>row12. bind_err (getitem row12 1) (\<lambda>c12.
     bind_err (py_float E c12) (\<lambda>euc_to_cos.
     bind_err (getitem rows 15) (\<lambda>row15.
     bind_err (traverse (py_float E) (drop 1 row15)) (\<lambda>masked.
     bind_err (getitem rows 16) (\<lambda>row16.
     bind_err (traverse (py_float E) (drop 1 row16)) (\<lambda>compressed.
     bind_err (getitem rows 17) (\<lambda>row17.
     bind_err (traverse (py_float E) (drop 1 row17)) (\<lambda>individual.
       Inr \<lparr> model_per_token = drop 1 row1,
             model_loss_per_token = mlpt,
             individual_model_loss = individual,
             masked_loss = masked,
             compressed_loss = compressed,
             euc_nn_votes = drop 1 row2,
             cos_nn_votes = drop 1 row3,
             euc_accuracy = euc_acc,
             cos_accuracy = cos_acc,
             euc_waccuracy = euc_wacc,
             cos_waccuracy = cos_wacc,
             euc_to_cos_accuracy = euc_to_cos \<rparr>))))))))))))))))))))))))))"

definition read_from_csv :: "env \<Rightarrow> string \<Rightarrow> world \<Rightarrow> py_error + loaded_report" where
  "read_from_csv E path w =
     (case files w path of
        None \<Rightarrow> Inl FileNotFoundError
      | Some rows \<Rightarrow> read_rows E rows)"

section \<open>The entry point\<close>

definition save_path :: "evaluator \<Rightarrow> string" where
  "save_path self =
     ''logs/explainable-soft-prompts/'' @ soft_prompt_name self @ ''/checkpoints/''
       @ join ''_'' (map str_int (model_numbers self))
       @ ''_evaluation_with_k_'' @ str_int (knn_k self)
       @ (if use_test_set self then ''_test.csv'' else ''.csv'')"

text \<open>
  The state of the evaluator's result attributes after
  \<^verbatim>\<open>token_relevance_evaluation\<close>: computed by the pipeline, or loaded from the file.
\<close>

datatype evaluation = Computed computed_report | Loaded loaded_report

text \<open>The handler of the cache miss: the two evaluations, then the save.\<close>

definition run_pipeline ::
  "env \<Rightarrow> evaluator \<Rightarrow> string \<Rightarrow> world \<Rightarrow> (py_error + evaluation) \<times> world"
where
  "run_pipeline E self path w =
     (case loss_evaluation E self w of
        (Inl e, w1) \<Rightarrow> (Inl e, w1)
      | (Inr la, w1) \<Rightarrow>
          (case nn_evaluation E self (la_model_per_token la) of
             Inl e \<Rightarrow> (Inl e, w1)
           | Inr na \<Rightarrow>
               (Inr (Computed (report_of la na)),
                save_results E self (report_of la na) path w1)))"

definition token_relevance_evaluation ::
  "env \<Rightarrow> evaluator \<Rightarrow> world \<Rightarrow> (py_error + evaluation) \<times> world"
where
  "token_relevance_evaluation E self w =
     (case read_from_csv E (save_path self) w of
        Inr loaded \<Rightarrow> (Inr (Loaded loaded), w)
      | Inl FileNotFoundError \<Rightarrow> run_pipeline E self (save_path self) w
      | Inl e \<Rightarrow> (Inl e, w))"

section \<open>A concrete run\<close>

text \<open>
  An instance of the two float primitives on plain decimal literals, for evaluating the
  model on concrete reports. \<open>repr_dec\<close> prints the decimal expansion (at most 17
  fractional digits, \<^verbatim>\<open>.0\<close> for an integral value) and \<open>float_dec\<close> reads an
  optional minus sign, digits, and an optional point followed by digits, and rejects
  everything else with ValueError. On the floats and cells used below (short decimal
  expansions, the empty cell, the row labels) this is what Python prints and what
  \<^verbatim>\<open>float\<close> does; the exponent notation, surrounding blanks and the words
  \<^verbatim>\<open>inf\<close> and \<^verbatim>\<open>nan\<close> that \<^verbatim>\<open>float\<close> also accepts do not occur there.
\<close>

definition digit_of :: "char \<Rightarrow> nat option" where
  "digit_of c = map_of (zip ''0123456789'' [0, 1, 2, 3, 4, 5, 6, 7, 8, 9]) c"

fun digits_val :: "nat \<Rightarrow> string \<Rightarrow> nat option" where
  "digits_val acc [] = Some acc"
| "digits_val acc (c # cs) =
     (case digit_of c of None \<Rightarrow> None | Some d \<Rightarrow> digits_val (10 * acc + d) cs)"

definition float_dec :: "string \<Rightarrow> py_error + pyfloat" where
  "float_dec s =
     (let neg = (case s of [] \<Rightarrow> False | c # _ \<Rightarrow> c = CHR ''-'');
          body = (if neg then tl s else s);
          ip = takeWhile (\<lambda>c. c \<noteq> CHR ''.'') body;
          fp = drop 1 (dropWhile (\<lambda>c. c \<noteq> CHR ''.'') body)
      in if ip = [] \<and> fp = [] then Inl ValueError
         else case (digits_val 0 ip, digits_val 0 fp) of
                (Some a, Some b) \<Rightarrow>
                  Inr ((if neg then - 1 else 1) * (of_nat a + of_nat b / 10 ^ length fp))
              | _ \<Rightarrow> Inl ValueError)"

fun frac_digits :: "nat \<Rightarrow> rat \<Rightarrow> string" where
  "frac_digits 0 x = []"
| "frac_digits (Suc n) x =
     (if x = 0 then []
      else (''0123456789'' ! nat \<lfloor>x * 10\<rfloor>) # frac_digits n (x * 10 - of_int \<lfloor>x * 10\<rfloor>))"

definition repr_dec :: "pyfloat \<Rightarrow> string" where
  "repr_dec x =
     (let a = \<bar>x\<bar>; ip = \<lfloor>a\<rfloor>; fr = a - of_int ip
      in (if x < 0 then ''-'' else []) @ str_nat (nat ip) @ ''.''
           @ (if fr = 0 then ''0'' else frac_digits 17 fr))"

text \<open>
  Two models, a prompt of four tokens, two neighbours per token. The drop-out assigns
  tokens 0 and 1 to model 0 and tokens 2 and 3 to model 1; the embedding space has three
  rows per model.
\<close>

definition example_env :: env where
  "example_env =
     \<lparr> prompt_token_drop_out = (\<lambda>self. Inr ([0, 0, 1, 1], [1 / 2, 1 / 4, 3 / 4, 1 / 2])),
       validate_soft_prompt_on_multiple_models = (\<lambda>self. Inr [3 / 2, 5 / 2]),
       validate_prompt =
         (\<lambda>self m toks inverse shorten. Inr ((if shorten then 3 else 2) + of_int m / 2)),
       get_model_embedding_spaces = (\<lambda>names. Inr ([], [0, 0, 0, 1, 1, 1])),
       load_soft_prompt_weight = (\<lambda>name. Inr []),
       get_k_nearest_neighbors_for_all_tokens =
         (\<lambda>metric weight spaces kk.
            Inr (if metric = ''euclidean'' then [[0, 1], [3, 0], [4, 2], [5, 1]]
                 else [[0, 2], [1, 4], [3, 0], [5, 2]])),
       float_repr = repr_dec,
       py_float = float_dec \<rparr>"

definition example_evaluator :: evaluator where
  "example_evaluator =
     \<lparr> soft_prompt_name = ''sp'', model_numbers = [0, 1], model_names = [''m0'', ''m1''],
       config_path = ''cfg'', accelerator = ''cpu'', prompt_length = 4, embedding_size = 2,
       knn_k = 2, batch_size = 8, use_test_set = False \<rparr>"

definition empty_world :: world where
  "empty_world = \<lparr> files = (\<lambda>path. None), oracle_calls = [] \<rparr>"

section \<open>Counting\<close>


section \<open>Reference formulations\<close>

text \<open>
  The certainty-weighted agreement rate as the specification words it: the sum over the
  tokens of the indicator of a match times the token's certainty, divided by the sum of
  the certainties.
\<close>

definition weighted_accuracy_formula :: "('l \<times> pyfloat) list \<Rightarrow> 'l list \<Rightarrow> pyfloat" where
  "weighted_accuracy_formula votes labels =
     (\<Sum>(v, m)\<leftarrow>zip votes labels. (if fst v = m then 1 else 0) * snd v) / (\<Sum>v\<leftarrow>votes. snd v)"

text \<open>
  The positions the importance assignment gives to a model, and the oracle calls the
  specification prescribes for the shortening evaluation: per model of the pool, in pool
  order, the masked variant (inverse flag true, shorten flag false) and the compressed
  variant (inverse flag true, shorten flag true), both on the model's own positions.
\<close>

definition kept_positions :: "int list \<Rightarrow> int \<Rightarrow> nat list" where
  "kept_positions assignment m = filter (\<lambda>j. assignment ! j = m) [0..<length assignment]"

definition shortening_calls :: "int list \<Rightarrow> int list \<Rightarrow> oracle_call list" where
  "shortening_calls assignment pool =
     concat (map (\<lambda>m. [Call_validate_prompt m (kept_positions assignment m) True False,
                        Call_validate_prompt m (kept_positions assignment m) True True]) pool)"


text \<open>
  The floats of a report whose cells \<^verbatim>\<open>read_from_csv\<close> converts with
  \<^verbatim>\<open>float\<close>, and the cells of a file that it converts.
\<close>

definition parsed_floats :: "computed_report \<Rightarrow> pyfloat list" where
  "parsed_floats r =
     model_loss_per_token r
       @ [euc_accuracy r, cos_accuracy r, euc_waccuracy r, cos_waccuracy r, euc_to_cos_accuracy r]
       @ masked_loss r @ [np_mean (masked_loss r)]
       @ compressed_loss r @ [np_mean (compressed_loss r)]
       @ individual_model_loss r @ [np_mean (individual_model_loss r)]"

definition float_cells :: "string list list \<Rightarrow> string list" where
  "float_cells rows =
     drop 1 (rows ! 4)
       @ [rows ! 8 ! 1, rows ! 9 ! 1, rows ! 10 ! 1, rows ! 11 ! 1, rows ! 12 ! 1]
       @ drop 1 (rows ! 15) @ drop 1 (rows ! 16) @ drop 1 (rows ! 17)"

text \<open>The report the pipeline computes in the concrete run.\<close>

definition example_report :: computed_report where
  "example_report =
     \<lparr> model_per_token = [0, 0, 1, 1],
       model_loss_per_token = [1 / 2, 1 / 4, 3 / 4, 1 / 2],
       individual_model_loss = [3 / 2, 5 / 2],
       masked_loss = [2, 5 / 2],
       compressed_loss = [3, 7 / 2],
       euc_nn_votes = [(0, 1), (1, 1 / 2), (1, 1 / 2), (1, 1 / 2)],
       cos_nn_votes = [(0, 1), (0, 1 / 2), (1, 1 / 2), (1, 1 / 2)],
       euc_accuracy = 3 / 4,
       cos_accuracy = 1,
       euc_waccuracy = 4 / 5,
       cos_waccuracy = 1,
       euc_to_cos_accuracy = 3 / 4 \<rparr>"

text \<open>
  A file that does not follow the layout: the file of the concrete run with the two vote
  rows exchanged, the two accuracy rows exchanged, the masked and compressed rows
  exchanged, and a row added at the end.
\<close>

definition reordered_rows :: "string list list" where
  "reordered_rows =
     [[''token id'', ''0'', ''1'', ''2'', ''3''],
      [''Loss assignment'', ''0'', ''0'', ''1'', ''1''],
      [''Cosine assignment'', ''0'', ''0'', ''1'', ''1''],
      [''Euclidean assignment'', ''0'', ''1'', ''1'', ''1''],
      [''Loss'', ''0.5'', ''0.25'', ''0.75'', ''0.5''],
      [''Euclidean certanty'', ''1.0'', ''0.5'', ''0.5'', ''0.5''],
      [''Cosine certanty'', ''1.0'', ''0.5'', ''0.5'', ''0.5''],
      [''''],
      [''Cosine accuracy'', ''1.0''],
      [''Euclidean accuracy'', ''0.75''],
      [''Euclidean weighted accuracy'', ''0.8''],
      [''Cosine weighted accuracy'', ''1.0''],
      [''Euclidean to cosine accuracy'', ''0.75''],
      [''''],
      [''Prompt compression'', ''m0'', ''m1'', ''average''],
      [''Shortened prompt length'', ''3.0'', ''3.5'', ''3.25''],
      [''Normal prompt length'', ''2.0'', ''2.5'', ''2.25''],
      [''One model loss'', ''1.5'', ''2.5'', ''2.0''],
      [''added'', ''row'']]"

text \<open>What the second invocation of the concrete run loads from the file of the first.\<close>

definition example_loaded :: loaded_report where
  "example_loaded =
     \<lparr> model_per_token = [''0'', ''0'', ''1'', ''1''],
       model_loss_per_token = [1 / 2, 1 / 4, 3 / 4, 1 / 2],
       individual_model_loss = [3 / 2, 5 / 2, 2],
       masked_loss = [2, 5 / 2, 9 / 4],
       compressed_loss = [3, 7 / 2, 13 / 4],
       euc_nn_votes = [''0'', ''1'', ''1'', ''1''],
       cos_nn_votes = [''0'', ''0'', ''1'', ''1''],
       euc_accuracy = 3 / 4,
       cos_accuracy = 1,
       euc_waccuracy = 4 / 5,
       cos_waccuracy = 1,
       euc_to_cos_accuracy = 3 / 4 \<rparr>"

section \<open>Properties of the nearest-neighbour vote\<close>















section \<open>Properties of the weighted accuracy\<close>

lemma traverse_Inr_map:
  "(\<And>x. x \<in> set xs \<Longrightarrow> f x = Inr (g x)) \<Longrightarrow> traverse f xs = Inr (map g xs)"
  by (induction xs) auto

lemma map_index_zip:
  assumes "length xs \<le> length ys"
  shows "map (\<lambda>i. F (xs ! i) (ys ! i)) [0..<length xs] = map (\<lambda>(x, y). F x y) (zip xs ys)"
  using assms by (intro nth_equalityI) auto

lemma waccuracy_total:
  assumes "length votes \<le> length mpt"
  shows "waccuracy votes mpt =
           (if sum_list (map snd votes) = 0 then Inl ZeroDivisionError
            else Inr (weighted_accuracy_formula votes mpt))"
proof -
  let ?n = "length votes"
  have hits: "traverse (\<lambda>i. bind_err (getitem votes i) (\<lambda>v.
                          bind_err (getitem mpt i) (\<lambda>m.
                          bind_err (getitem votes i) (\<lambda>v'.
                            Inr ((if fst v = m then 1 else 0) * snd v'))))) [0..<?n]
              = Inr (map (\<lambda>i. (if fst (votes ! i) = mpt ! i then 1 else 0) * snd (votes ! i)) [0..<?n])"
    using assms by (intro traverse_Inr_map) (simp add: bind_err_def getitem_def)
  have certs: "traverse (\<lambda>i. bind_err (getitem votes i) (\<lambda>v. Inr (snd v))) [0..<?n]
              = Inr (map (\<lambda>i. snd (votes ! i)) [0..<?n])"
    by (intro traverse_Inr_map) (simp add: bind_err_def getitem_def)
  have c2: "map (\<lambda>i. snd (votes ! i)) [0..<?n] = map snd votes"
    by (intro nth_equalityI) auto
  have h2: "map (\<lambda>i. (if fst (votes ! i) = mpt ! i then 1 else 0) * snd (votes ! i)) [0..<?n]
            = map (\<lambda>(v, m). (if fst v = m then 1 else 0) * snd v) (zip votes mpt)"
    using map_index_zip[OF assms, of "\<lambda>v m. (if fst v = m then 1 else 0) * snd v"] .
  show ?thesis
    unfolding waccuracy_def hits certs c2 h2 by (simp add: weighted_accuracy_formula_def)
qed

lemma waccuracy_short:
  assumes "length mpt < length votes"
  shows "waccuracy votes mpt = Inl IndexError"
proof -
  let ?f = "\<lambda>i. bind_err (getitem votes i) (\<lambda>v.
                          bind_err (getitem mpt i) (\<lambda>m.
                          bind_err (getitem votes i) (\<lambda>v'.
                            Inr ((if fst v = m then (1::rat) else 0) * snd v'))))"
  have raise: "traverse ?f xs = Inl IndexError" if "length mpt \<in> set xs" "\<forall>x\<in>set xs. x < length votes" for xs
    using that
  proof (induction xs)
    case Nil then show ?case by simp
  next
    case (Cons x xs)
    show ?case
    proof (cases "x < length mpt")
      case True
      with Cons show ?thesis by (auto simp: bind_err_def getitem_def)
    next
      case False
      with Cons.prems show ?thesis by (simp add: bind_err_def getitem_def)
    qed
  qed
  have "traverse ?f [0..<length votes] = Inl IndexError"
    using assms by (intro raise) auto
  then show ?thesis by (simp add: waccuracy_def)
qed

lemma waccuracy_Inr:
  assumes "waccuracy votes mpt = Inr x"
  shows "length votes \<le> length mpt \<and> sum_list (map snd votes) \<noteq> 0 \<and>
         x = weighted_accuracy_formula votes mpt"
proof (cases "length votes \<le> length mpt")
  case True
  with assms waccuracy_total[OF True] show ?thesis by (auto split: if_splits)
next
  case False
  then have "waccuracy votes mpt = Inl IndexError" by (intro waccuracy_short) simp
  with assms show ?thesis by simp
qed

lemma nn_evaluation_Inr:
  assumes "nn_evaluation E self mpt = Inr na"
  shows "waccuracy (nn_euc_nn_votes na) mpt = Inr (nn_euc_waccuracy na) \<and>
         waccuracy (nn_cos_nn_votes na) mpt = Inr (nn_cos_waccuracy na)"
  using assms
  by (auto simp: nn_evaluation_def bind_err_def split: sum.splits prod.splits)


text \<open>
  Claim C7. For either metric, given the per-token ablation labels and votes with at
  least one token and a non-zero certainty sum, the weighted accuracy the code computes
  is the sum over the tokens of the indicator of a match times the certainty, divided by
  the sum of the certainties; and whenever \<^verbatim>\<open>nn_evaluation\<close> completes, both of
  its weighted accuracies are that quotient of its own votes.
\<close>

theorem waccuracy_is_weighted_agreement:
  "(votes \<noteq> [] \<and> length ablation_labels = length votes \<and> (\<Sum>v\<leftarrow>votes. snd v) \<noteq> 0 \<longrightarrow>
      waccuracy votes ablation_labels = Inr (weighted_accuracy_formula votes ablation_labels)) \<and>
   (nn_evaluation E self ablation_labels = Inr na \<longrightarrow>
      nn_euc_waccuracy na = weighted_accuracy_formula (nn_euc_nn_votes na) ablation_labels \<and>
      nn_cos_waccuracy na = weighted_accuracy_formula (nn_cos_nn_votes na) ablation_labels)"
proof (intro conjI impI)
  assume "votes \<noteq> [] \<and> length ablation_labels = length votes \<and> (\<Sum>v\<leftarrow>votes. snd v) \<noteq> 0"
  then show "waccuracy votes ablation_labels = Inr (weighted_accuracy_formula votes ablation_labels)"
    using waccuracy_total[of votes ablation_labels] by simp
next
  assume "nn_evaluation E self ablation_labels = Inr na"
  from nn_evaluation_Inr[OF this] waccuracy_Inr
  show "nn_euc_waccuracy na = weighted_accuracy_formula (nn_euc_nn_votes na) ablation_labels"
    by blast
next
  assume "nn_evaluation E self ablation_labels = Inr na"
  from nn_evaluation_Inr[OF this] waccuracy_Inr
  show "nn_cos_waccuracy na = weighted_accuracy_formula (nn_cos_nn_votes na) ablation_labels"
    by blast
qed

theorem waccuracy_is_weighted_agreement_witness:
  "waccuracy [(0::int, 1), (1, 1 / 2), (1, 1 / 2), (1, 1 / 2)] [0, 0, 1, 1] = Inr (4 / 5) \<and>
   map_sum id nn_euc_waccuracy (nn_evaluation example_env example_evaluator [0, 0, 1, 1]) = Inr (4 / 5)"
proof -
  let ?votes = "[(0::int, 1::rat), (1, 1 / 2), (1, 1 / 2), (1, 1 / 2)]"
  have f: "weighted_accuracy_formula ?votes [0, 0, 1, 1] = 4 / 5"
    by (simp add: weighted_accuracy_formula_def)
  have n: "nn_evaluation example_env example_evaluator [0, 0, 1, 1]
             = Inr \<lparr> nn_euc_nn_votes = ?votes,
                     nn_cos_nn_votes = [(0, 1), (0, 1 / 2), (1, 1 / 2), (1, 1 / 2)],
                     nn_euc_accuracy = 3 / 4, nn_cos_accuracy = 1,
                     nn_euc_waccuracy = 4 / 5, nn_cos_waccuracy = 1,
                     nn_euc_to_cos_accuracy = 3 / 4 \<rparr>"
    by code_simp
  from waccuracy_is_weighted_agreement[of ?votes "[0, 0, 1, 1]" example_env example_evaluator]
  have "waccuracy ?votes [0, 0, 1, 1] = Inr (weighted_accuracy_formula ?votes [0, 0, 1, 1])"
    by simp
  with f n show ?thesis by simp
qed




section \<open>Properties of the loss evaluation\<close>

lemma tokens_to_keep_positions: "tokens_to_keep_of mpt m = kept_positions mpt m"
proof -
  have "map fst (filter (\<lambda>(j, x). x = m) (enumerate n xs))
          = filter (\<lambda>j. xs ! (j - n) = m) [n..<n + length xs]" for n and xs :: "int list"
  proof (induction xs arbitrary: n)
    case Nil
    then show ?case by simp
  next
    case (Cons x xs)
    have "filter (\<lambda>j. (x # xs) ! (j - n) = m) [Suc n..<Suc n + length xs]
            = filter (\<lambda>j. xs ! (j - Suc n) = m) [Suc n..<Suc n + length xs]"
      by (intro filter_cong) (auto simp: nth_Cons')
    with Cons[of "Suc n"] show ?case by (auto simp del: upt_Suc simp add: upt_conv_Cons)
  qed
  from this[of 0 mpt] show ?thesis by (simp add: tokens_to_keep_of_def kept_positions_def)
qed

lemma shorten_loop_calls:
  assumes "\<forall>m\<in>set ms. \<forall>shorten. \<exists>loss.
             validate_prompt E self m (kept_positions mpt m) True shorten = Inr loss"
  shows "\<exists>mk cp. shorten_loop E self mpt ms acc w
                   = (Inr (fst acc @ mk, snd acc @ cp),
                      w\<lparr>oracle_calls := oracle_calls w @ shortening_calls mpt ms\<rparr>) \<and>
                 map Inr mk = map (\<lambda>m. validate_prompt E self m (kept_positions mpt m) True False) ms \<and>
                 map Inr cp = map (\<lambda>m. validate_prompt E self m (kept_positions mpt m) True True) ms"
  using assms
proof (induction ms arbitrary: acc w)
  case Nil
  then show ?case by (simp add: shortening_calls_def)
next
  case (Cons m ms)
  from Cons.prems obtain l1 l2 where
    l1: "validate_prompt E self m (kept_positions mpt m) True False = Inr l1" and
    l2: "validate_prompt E self m (kept_positions mpt m) True True = Inr l2"
    by (metis list.set_intros(1))
  let ?w2 = "w\<lparr>oracle_calls := oracle_calls w @
               [Call_validate_prompt m (kept_positions mpt m) True False,
                Call_validate_prompt m (kept_positions mpt m) True True]\<rparr>"
  have step: "shorten_loop E self mpt (m # ms) acc w
                = shorten_loop E self mpt ms (fst acc @ [l1], snd acc @ [l2]) ?w2"
    by (simp add: tokens_to_keep_positions l1 l2 log_call_def Let_def)
  from Cons.IH[of "(fst acc @ [l1], snd acc @ [l2])" ?w2] Cons.prems
  obtain mk cp where
    r: "shorten_loop E self mpt ms (fst acc @ [l1], snd acc @ [l2]) ?w2
          = (Inr ((fst acc @ [l1]) @ mk, (snd acc @ [l2]) @ cp),
             ?w2\<lparr>oracle_calls := oracle_calls ?w2 @ shortening_calls mpt ms\<rparr>)"
    and mk: "map Inr mk = map (\<lambda>m. validate_prompt E self m (kept_positions mpt m) True False) ms"
    and cp: "map Inr cp = map (\<lambda>m. validate_prompt E self m (kept_positions mpt m) True True) ms"
    by auto
  have "shorten_loop E self mpt (m # ms) acc w
          = (Inr (fst acc @ (l1 # mk), snd acc @ (l2 # cp)),
             w\<lparr>oracle_calls := oracle_calls w @ shortening_calls mpt (m # ms)\<rparr>)"
    using step r by (simp add: shortening_calls_def)
  moreover have "map Inr (l1 # mk)
      = map (\<lambda>m. validate_prompt E self m (kept_positions mpt m) True False) (m # ms)"
    using l1 mk by simp
  moreover have "map Inr (l2 # cp)
      = map (\<lambda>m. validate_prompt E self m (kept_positions mpt m) True True) (m # ms)"
    using l2 cp by simp
  ultimately show ?case by blast
qed

text \<open>
  Claim C8. When the oracle answers, \<^verbatim>\<open>loss_evaluation\<close> returns, and after the
  drop-out and the baseline call it makes, for every model of the pool in order, exactly
  two \<^verbatim>\<open>validate_prompt\<close> calls on one and the same kept-token set, the positions
  the assignment gives to that model: the masked one with inverse true and shorten false,
  the compressed one with inverse true and shorten true. The two loss sequences are the
  answers to these calls, and no file is touched.
\<close>

theorem loss_evaluation_oracle_calls:
  assumes "prompt_token_drop_out E self = Inr (mpt, mlpt)"
    and "validate_soft_prompt_on_multiple_models E self = Inr individual"
    and "\<forall>m\<in>set (model_numbers self). \<forall>shorten. \<exists>loss.
           validate_prompt E self m (kept_positions mpt m) True shorten = Inr loss"
  shows "\<exists>la w'. loss_evaluation E self w = (Inr la, w') \<and>
           oracle_calls w' = oracle_calls w
              @ [Call_prompt_token_drop_out, Call_validate_soft_prompt_on_multiple_models]
              @ shortening_calls mpt (model_numbers self) \<and>
           files w' = files w \<and>
           la_model_per_token la = mpt \<and> la_model_loss_per_token la = mlpt \<and>
           la_individual_model_loss la = individual \<and>
           map Inr (la_masked_loss la)
             = map (\<lambda>m. validate_prompt E self m (kept_positions mpt m) True False) (model_numbers self) \<and>
           map Inr (la_compressed_loss la)
             = map (\<lambda>m. validate_prompt E self m (kept_positions mpt m) True True) (model_numbers self)"
proof -
  let ?w2 = "log_call Call_validate_soft_prompt_on_multiple_models (log_call Call_prompt_token_drop_out w)"
  from shorten_loop_calls[OF assms(3), of "([], [])" ?w2] obtain mk cp where
    r: "shorten_loop E self mpt (model_numbers self) ([], []) ?w2
          = (Inr (mk, cp), ?w2\<lparr>oracle_calls := oracle_calls ?w2 @ shortening_calls mpt (model_numbers self)\<rparr>)"
    and mk: "map Inr mk = map (\<lambda>m. validate_prompt E self m (kept_positions mpt m) True False) (model_numbers self)"
    and cp: "map Inr cp = map (\<lambda>m. validate_prompt E self m (kept_positions mpt m) True True) (model_numbers self)"
    by auto
  have "loss_evaluation E self w
          = (Inr \<lparr> la_model_per_token = mpt, la_model_loss_per_token = mlpt,
                    la_individual_model_loss = individual,
                    la_masked_loss = mk, la_compressed_loss = cp \<rparr>,
             ?w2\<lparr>oracle_calls := oracle_calls ?w2 @ shortening_calls mpt (model_numbers self)\<rparr>)"
    by (simp add: loss_evaluation_def Let_def assms(1,2) r)
  with mk cp show ?thesis by (simp add: log_call_def)
qed

theorem loss_evaluation_oracle_calls_witness:
  "oracle_calls (snd (loss_evaluation example_env example_evaluator empty_world))
     = [Call_prompt_token_drop_out, Call_validate_soft_prompt_on_multiple_models,
        Call_validate_prompt 0 [0, 1] True False, Call_validate_prompt 0 [0, 1] True True,
        Call_validate_prompt 1 [2, 3] True False, Call_validate_prompt 1 [2, 3] True True] \<and>
   map_sum id la_masked_loss (fst (loss_evaluation example_env example_evaluator empty_world))
     = Inr [2, 5 / 2] \<and>
   map_sum id la_compressed_loss (fst (loss_evaluation example_env example_evaluator empty_world))
     = Inr [3, 7 / 2]"
proof -
  have h1: "prompt_token_drop_out example_env example_evaluator
              = Inr ([0, 0, 1, 1], [1 / 2, 1 / 4, 3 / 4, 1 / 2])"
    by (simp add: example_env_def)
  have h2: "validate_soft_prompt_on_multiple_models example_env example_evaluator = Inr [3 / 2, 5 / 2]"
    by (simp add: example_env_def)
  have h3: "\<forall>m\<in>set (model_numbers example_evaluator). \<forall>shorten. \<exists>loss.
              validate_prompt example_env example_evaluator m (kept_positions [0, 0, 1, 1] m) True shorten
                = Inr loss"
    by (simp add: example_env_def)
  have k0: "kept_positions [0, 0, 1, 1] 0 = [0, 1]" by code_simp
  have k1: "kept_positions [0, 0, 1, 1] 1 = [2, 3]" by code_simp
  from loss_evaluation_oracle_calls[OF h1 h2 h3, of empty_world]
  obtain la w' where
    le: "loss_evaluation example_env example_evaluator empty_world = (Inr la, w')"
    and calls: "oracle_calls w' = oracle_calls empty_world
              @ [Call_prompt_token_drop_out, Call_validate_soft_prompt_on_multiple_models]
              @ shortening_calls [0, 0, 1, 1] (model_numbers example_evaluator)"
    and mk: "map Inr (la_masked_loss la)
             = map (\<lambda>m. validate_prompt example_env example_evaluator m (kept_positions [0, 0, 1, 1] m) True False)
                 (model_numbers example_evaluator)"
    and cp: "map Inr (la_compressed_loss la)
             = map (\<lambda>m. validate_prompt example_env example_evaluator m (kept_positions [0, 0, 1, 1] m) True True)
                 (model_numbers example_evaluator)"
    by blast
  from calls have c: "oracle_calls w' = [Call_prompt_token_drop_out, Call_validate_soft_prompt_on_multiple_models,
        Call_validate_prompt 0 [0, 1] True False, Call_validate_prompt 0 [0, 1] True True,
        Call_validate_prompt 1 [2, 3] True False, Call_validate_prompt 1 [2, 3] True True]"
    by (simp add: shortening_calls_def k0 k1 example_evaluator_def empty_world_def)
  from mk have "map Inr (la_masked_loss la) = map (Inr :: rat \<Rightarrow> py_error + rat) [2, 5 / 2]"
    by (simp add: example_env_def example_evaluator_def)
  then have m: "la_masked_loss la = [2, 5 / 2]"
    by (simp only: inj_map_eq_map[OF inj_Inr])
  from cp have "map Inr (la_compressed_loss la) = map (Inr :: rat \<Rightarrow> py_error + rat) [3, 7 / 2]"
    by (simp add: example_env_def example_evaluator_def)
  then have p: "la_compressed_loss la = [3, 7 / 2]"
    by (simp only: inj_map_eq_map[OF inj_Inr])
  from le c m p show ?thesis by simp
qed

section \<open>Properties of the Result Store\<close>

lemma save_rows_explicit:
  "save_rows E self r =
     [''token id'' # map (\<lambda>i. str_int (int i)) [0..<nat (prompt_length self)],
      ''Loss assignment'' # map str_int (model_per_token r),
      ''Euclidean assignment'' # map (\<lambda>v. str_int (fst v)) (euc_nn_votes r),
      ''Cosine assignment'' # map (\<lambda>v. str_int (fst v)) (cos_nn_votes r),
      ''Loss'' # map (float_repr E) (model_loss_per_token r),
      ''Euclidean certanty'' # map (\<lambda>v. float_repr E (snd v)) (euc_nn_votes r),
      ''Cosine certanty'' # map (\<lambda>v. float_repr E (snd v)) (cos_nn_votes r),
      [''''],
      [''Euclidean accuracy'', float_repr E (euc_accuracy r)],
      [''Cosine accuracy'', float_repr E (cos_accuracy r)],
      [''Euclidean weighted accuracy'', float_repr E (euc_waccuracy r)],
      [''Cosine weighted accuracy'', float_repr E (cos_waccuracy r)],
      [''Euclidean to cosine accuracy'', float_repr E (euc_to_cos_accuracy r)],
      [''''],
      ''Prompt compression'' # model_names self @ [''average''],
      ''Normal prompt length'' # map (float_repr E) (masked_loss r)
         @ [mean_cell E (masked_loss r)],
      ''Shortened prompt length'' # map (float_repr E) (compressed_loss r)
         @ [mean_cell E (compressed_loss r)],
      ''One model loss'' # map (float_repr E) (individual_model_loss r)
         @ [mean_cell E (individual_model_loss r)]]"
proof -
  have ix: "map (\<lambda>i. g (xs ! i)) [0..<length xs] = map g xs" for g :: "'a \<Rightarrow> string" and xs
    by (intro nth_equalityI) auto
  show ?thesis
    using ix[of "\<lambda>v. str_int (fst v)" "euc_nn_votes r"] ix[of "\<lambda>v. str_int (fst v)" "cos_nn_votes r"]
      ix[of "\<lambda>v. float_repr E (snd v)" "euc_nn_votes r"]
      ix[of "\<lambda>v. float_repr E (snd v)" "cos_nn_votes r"]
    by (simp add: save_rows_def writerow_def Let_def)
qed





lemma bind_err_Inr_iff: "bind_err m f = Inr y \<longleftrightarrow> (\<exists>v. m = Inr v \<and> f v = Inr y)"
  by (cases m) (simp_all add: bind_err_def)

lemma getitem_Inr_iff: "getitem xs i = Inr v \<longleftrightarrow> i < length xs \<and> v = xs ! i"
  by (auto simp: getitem_def)

lemma traverse_Inr_iff: "traverse f xs = Inr ys \<longleftrightarrow> map f xs = map Inr ys"
proof (induction xs arbitrary: ys)
  case Nil
  then show ?case by auto
next
  case (Cons x xs)
  show ?case
  proof (cases ys)
    case Nil
    then show ?thesis by (simp split: sum.splits)
  next
    case (Cons y ys')
    with Cons.IH[of ys'] show ?thesis by (auto split: sum.splits)
  qed
qed

lemma map_Inr_ex_iff: "(\<exists>ys. map f xs = map Inr ys) \<longleftrightarrow> (\<forall>x\<in>set xs. \<exists>y. f x = Inr y)"
proof (induction xs)
  case Nil
  then show ?case by simp
next
  case (Cons x xs)
  show ?case
  proof
    assume "\<exists>ys. map f (x # xs) = map Inr ys"
    then obtain ys where ys: "map f (x # xs) = map Inr ys" ..
    then obtain y ys' where "ys = y # ys'" by (cases ys) auto
    with ys Cons show "\<forall>x\<in>set (x # xs). \<exists>y. f x = Inr y" by auto
  next
    assume a: "\<forall>x\<in>set (x # xs). \<exists>y. f x = Inr y"
    then obtain y where y: "f x = Inr y" by auto
    from a Cons obtain ys where "map f xs = map Inr ys" by auto
    with y have "map f (x # xs) = map Inr (y # ys)" by simp
    then show "\<exists>ys. map f (x # xs) = map Inr ys" ..
  qed
qed

lemma read_rows_Inr_iff:
  "(\<exists>ld. read_rows E rows = Inr ld) \<longleftrightarrow>
     (18 \<le> length rows \<and> (\<forall>i\<in>{8, 9, 10, 11, 12}. 2 \<le> length (rows ! i)) \<and>
      (\<forall>c\<in>set (float_cells rows). \<exists>x. py_float E c = Inr x))"
proof -
  have "(\<exists>ld. read_rows E rows = Inr ld) \<longleftrightarrow>
     (18 \<le> length rows \<and> (\<forall>i\<in>{8, 9, 10, 11, 12}. 2 \<le> length (rows ! i)) \<and>
      (\<exists>ys. map (py_float E) (drop 1 (rows ! 4)) = map Inr ys) \<and>
      (\<exists>y. py_float E (rows ! 8 ! 1) = Inr y) \<and>
      (\<exists>y. py_float E (rows ! 9 ! 1) = Inr y) \<and>
      (\<exists>y. py_float E (rows ! 10 ! 1) = Inr y) \<and>
      (\<exists>y. py_float E (rows ! 11 ! 1) = Inr y) \<and>
      (\<exists>y. py_float E (rows ! 12 ! 1) = Inr y) \<and>
      (\<exists>ys. map (py_float E) (drop 1 (rows ! 15)) = map Inr ys) \<and>
      (\<exists>ys. map (py_float E) (drop 1 (rows ! 16)) = map Inr ys) \<and>
      (\<exists>ys. map (py_float E) (drop 1 (rows ! 17)) = map Inr ys))"
    unfolding read_rows_def bind_err_Inr_iff getitem_Inr_iff traverse_Inr_iff
    by (simp add: Suc_le_eq) (rule iffI; (elim exE conjE)?; (intro conjI exI)?; (assumption | simp)?)
  then show ?thesis
    unfolding map_Inr_ex_iff float_cells_def by (simp add: ball_Un) blast
qed


lemma traverse_round_trip:
  "\<forall>x\<in>set xs. py_float E (float_repr E x) = Inr x \<Longrightarrow>
   traverse (py_float E) (map (float_repr E) xs) = Inr xs"
  by (simp add: traverse_Inr_iff)

lemma read_rows_saved:
  assumes "\<forall>x\<in>set (parsed_floats r). py_float E (float_repr E x) = Inr x"
    and "masked_loss r \<noteq> []" and "compressed_loss r \<noteq> []" and "individual_model_loss r \<noteq> []"
  shows "read_rows E (save_rows E self r) =
           Inr \<lparr> model_per_token = map str_int (model_per_token r),
                 model_loss_per_token = model_loss_per_token r,
                 individual_model_loss = individual_model_loss r @ [np_mean (individual_model_loss r)],
                 masked_loss = masked_loss r @ [np_mean (masked_loss r)],
                 compressed_loss = compressed_loss r @ [np_mean (compressed_loss r)],
                 euc_nn_votes = map (\<lambda>v. str_int (fst v)) (euc_nn_votes r),
                 cos_nn_votes = map (\<lambda>v. str_int (fst v)) (cos_nn_votes r),
                 euc_accuracy = euc_accuracy r,
                 cos_accuracy = cos_accuracy r,
                 euc_waccuracy = euc_waccuracy r,
                 cos_waccuracy = cos_waccuracy r,
                 euc_to_cos_accuracy = euc_to_cos_accuracy r \<rparr>"
proof -
  have t4: "traverse (py_float E) (map (float_repr E) (model_loss_per_token r))
              = Inr (model_loss_per_token r)"
    using assms by (intro traverse_round_trip) (simp add: parsed_floats_def)
  have t15: "traverse (py_float E) (map (float_repr E) (masked_loss r @ [np_mean (masked_loss r)]))
              = Inr (masked_loss r @ [np_mean (masked_loss r)])"
    using assms by (intro traverse_round_trip) (auto simp: parsed_floats_def)
  have t16: "traverse (py_float E) (map (float_repr E) (compressed_loss r @ [np_mean (compressed_loss r)]))
              = Inr (compressed_loss r @ [np_mean (compressed_loss r)])"
    using assms by (intro traverse_round_trip) (auto simp: parsed_floats_def)
  have t17: "traverse (py_float E)
               (map (float_repr E) (individual_model_loss r @ [np_mean (individual_model_loss r)]))
              = Inr (individual_model_loss r @ [np_mean (individual_model_loss r)])"
    using assms by (intro traverse_round_trip) (auto simp: parsed_floats_def)
  have sc: "py_float E (float_repr E (euc_accuracy r)) = Inr (euc_accuracy r)"
    "py_float E (float_repr E (cos_accuracy r)) = Inr (cos_accuracy r)"
    "py_float E (float_repr E (euc_waccuracy r)) = Inr (euc_waccuracy r)"
    "py_float E (float_repr E (cos_waccuracy r)) = Inr (cos_waccuracy r)"
    "py_float E (float_repr E (euc_to_cos_accuracy r)) = Inr (euc_to_cos_accuracy r)"
    using assms by (simp_all add: parsed_floats_def)
  show ?thesis
    using t4 t15 t16 t17 assms(2-4)
    by (simp add: save_rows_explicit read_rows_def getitem_def bind_err_def sc mean_cell_def)
qed

text \<open>
  Claim C10. For a report with one value per model of a non-empty pool in each loss
  sequence, saved and then loaded from the same path (floats surviving the conversion to
  text and back), each of the three loaded loss sequences is the saved sequence followed
  by its mean: one element more than the pool has models.
\<close>

theorem loaded_losses_include_mean:
  assumes "\<forall>x\<in>set (parsed_floats r). py_float E (float_repr E x) = Inr x"
    and "model_numbers self \<noteq> []"
    and "length (masked_loss r) = length (model_numbers self)"
    and "length (compressed_loss r) = length (model_numbers self)"
    and "length (individual_model_loss r) = length (model_numbers self)"
  shows "\<exists>ld. read_from_csv E path (save_results E self r path w) = Inr ld \<and>
           masked_loss ld = masked_loss r @ [np_mean (masked_loss r)] \<and>
           compressed_loss ld = compressed_loss r @ [np_mean (compressed_loss r)] \<and>
           individual_model_loss ld = individual_model_loss r @ [np_mean (individual_model_loss r)] \<and>
           length (masked_loss ld) = length (model_numbers self) + 1 \<and>
           length (compressed_loss ld) = length (model_numbers self) + 1 \<and>
           length (individual_model_loss ld) = length (model_numbers self) + 1"
proof -
  from assms(2-5) have "masked_loss r \<noteq> []" "compressed_loss r \<noteq> []"
    "individual_model_loss r \<noteq> []"
    by auto
  from read_rows_saved[OF assms(1) this] assms(3-5) show ?thesis
    by (simp add: read_from_csv_def save_results_def)
qed

theorem loaded_losses_include_mean_witness:
  "map_sum id masked_loss
     (read_from_csv example_env ''report.csv''
        (save_results example_env example_evaluator example_report ''report.csv'' empty_world))
     = Inr [2, 5 / 2, 9 / 4] \<and>
   length (model_numbers example_evaluator) = 2"
proof -
  have h1: "\<forall>x\<in>set (parsed_floats example_report).
              py_float example_env (float_repr example_env x) = Inr x"
    by code_simp
  have h0: "model_numbers example_evaluator \<noteq> []" by (simp add: example_evaluator_def)
  have h2: "length (masked_loss example_report) = length (model_numbers example_evaluator)"
    and h3: "length (compressed_loss example_report) = length (model_numbers example_evaluator)"
    and h4: "length (individual_model_loss example_report) = length (model_numbers example_evaluator)"
    by (simp_all add: example_report_def example_evaluator_def)
  have m: "masked_loss example_report @ [np_mean (masked_loss example_report)] = [2, 5 / 2, 9 / 4]"
    by (simp add: example_report_def np_mean_def)
  from loaded_losses_include_mean[OF h1 h0 h2 h3 h4, of "''report.csv''" empty_world] m
  show ?thesis by (auto simp: example_evaluator_def)
qed

text \<open>
  Claim C1, evaluated on the concrete run. The first invocation computes and saves the
  report; the second loads the file. What it loads differs from what was saved: the
  labels are texts, the vote attributes hold label texts only and the certainties are
  not loaded, and each loss sequence has its mean as an additional last element.
\<close>

theorem save_then_load_example:
  "fst (token_relevance_evaluation example_env example_evaluator empty_world)
     = Inr (Computed example_report) \<and>
   fst (token_relevance_evaluation example_env example_evaluator
          (snd (token_relevance_evaluation example_env example_evaluator empty_world)))
     = Inr (Loaded example_loaded) \<and>
   read_from_csv example_env ''report.csv''
      (save_results example_env example_evaluator example_report ''report.csv'' empty_world)
     = Inr example_loaded \<and>
   masked_loss example_loaded \<noteq> masked_loss example_report \<and>
   compressed_loss example_loaded \<noteq> compressed_loss example_report \<and>
   individual_model_loss example_loaded \<noteq> individual_model_loss example_report \<and>
   euc_nn_votes example_loaded = map (\<lambda>v. str_int (fst v)) (euc_nn_votes example_report) \<and>
   cos_nn_votes example_loaded = map (\<lambda>v. str_int (fst v)) (cos_nn_votes example_report)"
  by code_simp

text \<open>
  Claim C4, as the code has it. Loading raises exactly when the file has fewer than
  eighteen rows, or one of the rows 8 to 12 lacks a second cell, or a cell that is
  converted with \<^verbatim>\<open>float\<close> is not a float literal; every other file loads, whatever
  its rows are. An error other than the missing file propagates out of the entry point
  and leaves the world as it was.
\<close>

theorem load_raises_iff:
  "((\<exists>e. read_rows E rows = Inl e) \<longleftrightarrow>
      \<not> (18 \<le> length rows \<and> (\<forall>i\<in>{8, 9, 10, 11, 12}. 2 \<le> length (rows ! i)) \<and>
         (\<forall>c\<in>set (float_cells rows). \<exists>x. py_float E c = Inr x))) \<and>
   (files w (save_path self) = Some rows \<and> read_rows E rows = Inl e \<and> e \<noteq> FileNotFoundError \<longrightarrow>
      token_relevance_evaluation E self w = (Inl e, w))"
proof
  have "(\<exists>e. read_rows E rows = Inl e) \<longleftrightarrow> \<not> (\<exists>ld. read_rows E rows = Inr ld)"
    by (cases "read_rows E rows") auto
  then show "(\<exists>e. read_rows E rows = Inl e) \<longleftrightarrow>
      \<not> (18 \<le> length rows \<and> (\<forall>i\<in>{8, 9, 10, 11, 12}. 2 \<le> length (rows ! i)) \<and>
         (\<forall>c\<in>set (float_cells rows). \<exists>x. py_float E c = Inr x))"
    by (simp only: read_rows_Inr_iff)
next
  show "files w (save_path self) = Some rows \<and> read_rows E rows = Inl e \<and> e \<noteq> FileNotFoundError \<longrightarrow>
      token_relevance_evaluation E self w = (Inl e, w)"
    by (cases e) (simp_all add: token_relevance_evaluation_def read_from_csv_def)
qed

theorem load_raises_iff_witness:
  "\<not> (\<exists>e. read_rows example_env reordered_rows = Inl e) \<and>
   token_relevance_evaluation example_env example_evaluator
      (empty_world\<lparr>files := (\<lambda>path. Some (take 17 reordered_rows))\<rparr>)
     = (Inl IndexError, empty_world\<lparr>files := (\<lambda>path. Some (take 17 reordered_rows))\<rparr>)"
proof -
  let ?w = "empty_world\<lparr>files := (\<lambda>path. Some (take 17 reordered_rows))\<rparr>"
  have a: "18 \<le> length reordered_rows" by code_simp
  have b: "\<forall>i\<in>{8, 9, 10, 11, 12}. 2 \<le> length (reordered_rows ! i)" by code_simp
  have "map (py_float example_env) (float_cells reordered_rows)
          = map Inr [1 / 2, 1 / 4, 3 / 4, 1 / 2, 1, 3 / 4, 4 / 5, 1, 3 / 4,
                     3, 7 / 2, 13 / 4, 2, 5 / 2, 9 / 4, 3 / 2, 5 / 2, 2]"
    by code_simp
  then have c: "\<forall>c\<in>set (float_cells reordered_rows). \<exists>x. py_float example_env c = Inr x"
    using map_Inr_ex_iff[of "py_float example_env" "float_cells reordered_rows"] by blast
  have d: "files ?w (save_path example_evaluator) = Some (take 17 reordered_rows)" by simp
  have e: "read_rows example_env (take 17 reordered_rows) = Inl IndexError" by code_simp
  from load_raises_iff[of example_env reordered_rows] a b c
  have 1: "\<not> (\<exists>e. read_rows example_env reordered_rows = Inl e)" by blast
  from load_raises_iff[of example_env "take 17 reordered_rows" ?w example_evaluator IndexError] d e
  have 2: "token_relevance_evaluation example_env example_evaluator ?w = (Inl IndexError, ?w)"
    by blast
  from 1 2 show ?thesis by blast
qed

theorem malformed_file_loads_counterexample:
  "read_rows example_env reordered_rows =
     Inr \<lparr> model_per_token = [''0'', ''0'', ''1'', ''1''],
           model_loss_per_token = [1 / 2, 1 / 4, 3 / 4, 1 / 2],
           individual_model_loss = [3 / 2, 5 / 2, 2],
           masked_loss = [3, 7 / 2, 13 / 4],
           compressed_loss = [2, 5 / 2, 9 / 4],
           euc_nn_votes = [''0'', ''0'', ''1'', ''1''],
           cos_nn_votes = [''0'', ''1'', ''1'', ''1''],
           euc_accuracy = 1,
           cos_accuracy = 3 / 4,
           euc_waccuracy = 4 / 5,
           cos_waccuracy = 1,
           euc_to_cos_accuracy = 3 / 4 \<rparr> \<and>
   reordered_rows \<noteq> save_rows example_env example_evaluator example_report \<and>
   length reordered_rows = 19"
  by code_simp

section \<open>Properties of the entry point\<close>

lemma shorten_loop_world:
  "files (snd (shorten_loop E self mpt ms acc w)) = files w \<and>
   (\<exists>cs. oracle_calls (snd (shorten_loop E self mpt ms acc w)) = oracle_calls w @ cs)"
proof (induction ms arbitrary: acc w)
  case Nil
  then show ?case by simp
next
  case (Cons m ms)
  let ?c1 = "Call_validate_prompt m (tokens_to_keep_of mpt m) True False"
  let ?c2 = "Call_validate_prompt m (tokens_to_keep_of mpt m) True True"
  show ?case
  proof (cases "validate_prompt E self m (tokens_to_keep_of mpt m) True False")
    case (Inl e)
    then show ?thesis by (simp add: Let_def log_call_def)
  next
    case l1: (Inr l1)
    show ?thesis
    proof (cases "validate_prompt E self m (tokens_to_keep_of mpt m) True True")
      case (Inl e)
      with l1 show ?thesis by (simp add: Let_def log_call_def)
    next
      case l2: (Inr l2)
      let ?w2 = "log_call ?c2 (log_call ?c1 w)"
      let ?acc = "(fst acc @ [l1], snd acc @ [l2])"
      from Cons.IH[of ?acc ?w2] obtain cs where
        f: "files (snd (shorten_loop E self mpt ms ?acc ?w2)) = files ?w2" and
        c: "oracle_calls (snd (shorten_loop E self mpt ms ?acc ?w2)) = oracle_calls ?w2 @ cs"
        by blast
      have step: "shorten_loop E self mpt (m # ms) acc w = shorten_loop E self mpt ms ?acc ?w2"
        using l1 l2 by (simp add: Let_def)
      from f c show ?thesis unfolding step by (simp add: log_call_def)
    qed
  qed
qed

lemma loss_evaluation_world:
  "files (snd (loss_evaluation E self w)) = files w \<and>
   (\<exists>cs. oracle_calls (snd (loss_evaluation E self w))
            = oracle_calls w @ Call_prompt_token_drop_out # cs)"
proof (cases "prompt_token_drop_out E self")
  case (Inl e)
  then show ?thesis by (simp add: loss_evaluation_def Let_def log_call_def)
next
  case (Inr p)
  obtain mpt mlpt where p: "p = (mpt, mlpt)" by (cases p)
  show ?thesis
  proof (cases "validate_soft_prompt_on_multiple_models E self")
    case (Inl e)
    with Inr p show ?thesis by (simp add: loss_evaluation_def Let_def log_call_def)
  next
    case i: (Inr individual)
    let ?w2 = "log_call Call_validate_soft_prompt_on_multiple_models
                 (log_call Call_prompt_token_drop_out w)"
    let ?res = "shorten_loop E self mpt (model_numbers self) ([], []) ?w2"
    from shorten_loop_world[of E self mpt "model_numbers self" "([], [])" ?w2] obtain cs where
      f: "files (snd ?res) = files ?w2" and c: "oracle_calls (snd ?res) = oracle_calls ?w2 @ cs"
      by blast
    have "snd (loss_evaluation E self w) = snd ?res"
      using Inr p i by (simp add: loss_evaluation_def Let_def split: prod.splits sum.splits)
    with f c show ?thesis by (simp add: log_call_def)
  qed
qed

lemma loss_evaluation_Inr:
  assumes "loss_evaluation E self w = (Inr la, w1)"
  shows "oracle_calls w1 = oracle_calls w
           @ [Call_prompt_token_drop_out, Call_validate_soft_prompt_on_multiple_models]
           @ shortening_calls (la_model_per_token la) (model_numbers self)"
proof -
  have loop: "shorten_loop E self mpt ms acc w = (Inr res, w') \<Longrightarrow>
              oracle_calls w' = oracle_calls w @ shortening_calls mpt ms"
    for mpt ms acc w res w'
  proof (induction ms arbitrary: acc w)
    case Nil
    then show ?case by (simp add: shortening_calls_def)
  next
    case (Cons m ms)
    from Cons.prems obtain l1 where
      l1: "validate_prompt E self m (tokens_to_keep_of mpt m) True False = Inr l1"
      by (cases "validate_prompt E self m (tokens_to_keep_of mpt m) True False")
         (simp_all add: Let_def)
    from Cons.prems l1 obtain l2 where
      l2: "validate_prompt E self m (tokens_to_keep_of mpt m) True True = Inr l2"
      by (cases "validate_prompt E self m (tokens_to_keep_of mpt m) True True")
         (simp_all add: Let_def)
    let ?w2 = "log_call (Call_validate_prompt m (tokens_to_keep_of mpt m) True True)
                 (log_call (Call_validate_prompt m (tokens_to_keep_of mpt m) True False) w)"
    from Cons.prems l1 l2 have
      "shorten_loop E self mpt ms (fst acc @ [l1], snd acc @ [l2]) ?w2 = (Inr res, w')"
      by (simp add: Let_def)
    from Cons.IH[OF this] show ?case
      by (simp add: log_call_def shortening_calls_def tokens_to_keep_positions)
  qed
  from assms obtain mpt mlpt where
    p: "prompt_token_drop_out E self = Inr (mpt, mlpt)"
    by (cases "prompt_token_drop_out E self")
       (auto simp: loss_evaluation_def Let_def)
  from assms p obtain individual where
    i: "validate_soft_prompt_on_multiple_models E self = Inr individual"
    by (cases "validate_soft_prompt_on_multiple_models E self")
       (auto simp: loss_evaluation_def Let_def)
  let ?w2 = "log_call Call_validate_soft_prompt_on_multiple_models
               (log_call Call_prompt_token_drop_out w)"
  from assms p i obtain res where
    r: "shorten_loop E self mpt (model_numbers self) ([], []) ?w2 = (Inr res, w1)"
    and la: "la_model_per_token la = mpt"
    by (auto simp: loss_evaluation_def Let_def split: prod.splits sum.splits)
  from loop[OF r] la show ?thesis by (simp add: log_call_def)
qed

lemma read_rows_saved_ok:
  assumes "\<forall>c\<in>set (float_cells (save_rows E self r)). \<exists>y. py_float E c = Inr y"
  shows "\<exists>ld. read_rows E (save_rows E self r) = Inr ld"
proof -
  have "18 \<le> length (save_rows E self r)" by (simp add: save_rows_explicit)
  moreover have "\<forall>i\<in>{8, 9, 10, 11, 12}. 2 \<le> length (save_rows E self r ! i)"
    by (simp add: save_rows_explicit)
  moreover note assms
  ultimately show ?thesis by (simp only: read_rows_Inr_iff)
qed

lemma miss_runs_pipeline:
  "files w (save_path self) = None \<Longrightarrow>
   token_relevance_evaluation E self w = run_pipeline E self (save_path self) w"
  by (simp add: token_relevance_evaluation_def read_from_csv_def)


text \<open>
  Claim C2. With no file at the path of the configuration, an invocation that completes
  has run the pipeline: it made the oracle calls of the loss evaluation, once each, and
  stored the report. A second invocation with the same configuration, in the world the
  first one left, loads that file and changes nothing: it makes no oracle call and
  writes no file. The cells of the stored file that are converted with \<^verbatim>\<open>float\<close>
  must be texts it accepts.
\<close>

theorem second_invocation_is_cache_read:
  assumes "files w (save_path self) = None"
    and "token_relevance_evaluation E self w = (Inr (Computed r), w1)"
    and "\<forall>c\<in>set (float_cells (save_rows E self r)). \<exists>y. py_float E c = Inr y"
  shows "token_relevance_evaluation E self w = run_pipeline E self (save_path self) w \<and>
         oracle_calls w1 = oracle_calls w
           @ [Call_prompt_token_drop_out, Call_validate_soft_prompt_on_multiple_models]
           @ shortening_calls (model_per_token r) (model_numbers self) \<and>
         files w1 = (files w)(save_path self \<mapsto> save_rows E self r) \<and>
         (\<exists>ld. token_relevance_evaluation E self w1 = (Inr (Loaded ld), w1))"
proof -
  note miss = miss_runs_pipeline[OF assms(1), of E]
  from assms(2) have run: "run_pipeline E self (save_path self) w = (Inr (Computed r), w1)"
    by (simp add: miss)
  obtain res w0 where le: "loss_evaluation E self w = (res, w0)"
    by (cases "loss_evaluation E self w")
  from run le obtain la where la: "res = Inr la"
    by (cases res) (simp_all add: run_pipeline_def)
  from run le la obtain na where
    na: "nn_evaluation E self (la_model_per_token la) = Inr na"
    by (cases "nn_evaluation E self (la_model_per_token la)") (simp_all add: run_pipeline_def)
  from run le la na have r: "r = report_of la na"
    and w1: "w1 = save_results E self r (save_path self) w0"
    by (auto simp: run_pipeline_def)
  from le la loss_evaluation_world[of E self w] have f0: "files w0 = files w" by simp
  from le la have c0: "oracle_calls w0 = oracle_calls w
           @ [Call_prompt_token_drop_out, Call_validate_soft_prompt_on_multiple_models]
           @ shortening_calls (la_model_per_token la) (model_numbers self)"
    by (intro loss_evaluation_Inr) simp
  have mpt: "model_per_token r = la_model_per_token la" by (simp add: r report_of_def)
  have calls: "oracle_calls w1 = oracle_calls w
           @ [Call_prompt_token_drop_out, Call_validate_soft_prompt_on_multiple_models]
           @ shortening_calls (model_per_token r) (model_numbers self)"
    using c0 by (simp add: w1 save_results_def mpt)
  have files: "files w1 = (files w)(save_path self \<mapsto> save_rows E self r)"
    by (simp add: w1 save_results_def f0)
  from read_rows_saved_ok[OF assms(3)] obtain ld where
    "read_rows E (save_rows E self r) = Inr ld" ..
  then have "token_relevance_evaluation E self w1 = (Inr (Loaded ld), w1)"
    by (simp add: token_relevance_evaluation_def read_from_csv_def files)
  with miss calls files show ?thesis by blast
qed

theorem second_invocation_is_cache_read_witness:
  "oracle_calls (snd (token_relevance_evaluation example_env example_evaluator empty_world))
     = [Call_prompt_token_drop_out, Call_validate_soft_prompt_on_multiple_models,
        Call_validate_prompt 0 [0, 1] True False, Call_validate_prompt 0 [0, 1] True True,
        Call_validate_prompt 1 [2, 3] True False, Call_validate_prompt 1 [2, 3] True True] \<and>
   (\<exists>ld. token_relevance_evaluation example_env example_evaluator
            (snd (token_relevance_evaluation example_env example_evaluator empty_world))
          = (Inr (Loaded ld),
             snd (token_relevance_evaluation example_env example_evaluator empty_world)))"
proof -
  let ?w1 = "snd (token_relevance_evaluation example_env example_evaluator empty_world)"
  have h1: "files empty_world (save_path example_evaluator) = None"
    by (simp add: empty_world_def)
  have "fst (token_relevance_evaluation example_env example_evaluator empty_world)
          = Inr (Computed example_report)"
    by code_simp
  then have h2: "token_relevance_evaluation example_env example_evaluator empty_world
                   = (Inr (Computed example_report), ?w1)"
    by (simp add: prod_eq_iff)
  have "map (py_float example_env)
             (float_cells (save_rows example_env example_evaluator example_report))
          = map Inr [1 / 2, 1 / 4, 3 / 4, 1 / 2, 3 / 4, 1, 4 / 5, 1, 3 / 4,
                     2, 5 / 2, 9 / 4, 3, 7 / 2, 13 / 4, 3 / 2, 5 / 2, 2]"
    by code_simp
  then have h3: "\<forall>c\<in>set (float_cells (save_rows example_env example_evaluator example_report)).
                   \<exists>y. py_float example_env c = Inr y"
    using map_Inr_ex_iff[of "py_float example_env"
            "float_cells (save_rows example_env example_evaluator example_report)"]
    by blast
  have k: "shortening_calls (model_per_token example_report) (model_numbers example_evaluator)
             = [Call_validate_prompt 0 [0, 1] True False, Call_validate_prompt 0 [0, 1] True True,
                Call_validate_prompt 1 [2, 3] True False, Call_validate_prompt 1 [2, 3] True True]"
    by code_simp
  have e: "oracle_calls empty_world = []" by (simp add: empty_world_def)
  from second_invocation_is_cache_read[OF h1 h2 h3]
  have c: "oracle_calls ?w1 = oracle_calls empty_world
           @ [Call_prompt_token_drop_out, Call_validate_soft_prompt_on_multiple_models]
           @ shortening_calls (model_per_token example_report) (model_numbers example_evaluator)"
    and l: "\<exists>ld. token_relevance_evaluation example_env example_evaluator ?w1
                  = (Inr (Loaded ld), ?w1)"
    by blast+
  from c have "oracle_calls ?w1
     = [Call_prompt_token_drop_out, Call_validate_soft_prompt_on_multiple_models,
        Call_validate_prompt 0 [0, 1] True False, Call_validate_prompt 0 [0, 1] True True,
        Call_validate_prompt 1 [2, 3] True False, Call_validate_prompt 1 [2, 3] True True]"
    by (simp only: k e append.simps)
  with l show ?thesis by blast
qed

text \<open>
  Claim C9. With no file at the path of the configuration, when the loss evaluation
  raises, or completes and the nearest-neighbour evaluation (voting or aggregation)
  raises, the entry point ends with that same exception, the files are as before the
  invocation, and the next invocation runs the pipeline again, starting with the
  drop-out call of the oracle.
\<close>

theorem stage_failure_propagates:
  assumes "files w (save_path self) = None"
    and "loss_evaluation E self w = (Inl e, w') \<or>
         (\<exists>la. loss_evaluation E self w = (Inr la, w') \<and>
               nn_evaluation E self (la_model_per_token la) = Inl e)"
  shows "token_relevance_evaluation E self w = (Inl e, w') \<and>
         files w' = files w \<and>
         token_relevance_evaluation E self w' = run_pipeline E self (save_path self) w' \<and>
         (\<exists>cs. oracle_calls (snd (token_relevance_evaluation E self w'))
                  = oracle_calls w' @ Call_prompt_token_drop_out # cs)"
proof -
  from assms(2) have fail: "run_pipeline E self (save_path self) w = (Inl e, w')"
    by (auto simp: run_pipeline_def)
  from assms(2) have "snd (loss_evaluation E self w) = w'" by auto
  with loss_evaluation_world[of E self w] have f: "files w' = files w" by simp
  with assms(1) have miss': "files w' (save_path self) = None" by simp
  note again = miss_runs_pipeline[OF miss', of E]
  have "snd (run_pipeline E self (save_path self) w') = snd (loss_evaluation E self w') \<or>
        (\<exists>r. snd (run_pipeline E self (save_path self) w')
               = save_results E self r (save_path self) (snd (loss_evaluation E self w')))"
    by (auto simp: run_pipeline_def split: prod.splits sum.splits)
  then have "oracle_calls (snd (run_pipeline E self (save_path self) w'))
               = oracle_calls (snd (loss_evaluation E self w'))"
    by (auto simp: save_results_def)
  with loss_evaluation_world[of E self w'] obtain cs where
    "oracle_calls (snd (run_pipeline E self (save_path self) w'))
       = oracle_calls w' @ Call_prompt_token_drop_out # cs"
    by auto
  with fail f again miss_runs_pipeline[OF assms(1), of E] show ?thesis by simp
qed

theorem stage_failure_propagates_witness:
  "fst (token_relevance_evaluation
          (example_env\<lparr>validate_prompt :=
             (\<lambda>self m toks inverse shorten.
                if shorten then Inl (ExternalError ''no token left'') else Inr 2)\<rparr>)
          example_evaluator empty_world) = Inl (ExternalError ''no token left'') \<and>
   files (snd (token_relevance_evaluation
          (example_env\<lparr>validate_prompt :=
             (\<lambda>self m toks inverse shorten.
                if shorten then Inl (ExternalError ''no token left'') else Inr 2)\<rparr>)
          example_evaluator empty_world)) (save_path example_evaluator) = None"
proof -
  let ?E = "example_env\<lparr>validate_prompt :=
             (\<lambda>self m toks inverse shorten.
                if shorten then Inl (ExternalError ''no token left'') else Inr 2)\<rparr>"
  let ?w' = "snd (loss_evaluation ?E example_evaluator empty_world)"
  have h1: "files empty_world (save_path example_evaluator) = None"
    by (simp add: empty_world_def)
  have "fst (loss_evaluation ?E example_evaluator empty_world)
          = Inl (ExternalError ''no token left'')"
    by code_simp
  then have "loss_evaluation ?E example_evaluator empty_world
               = (Inl (ExternalError ''no token left''), ?w')"
    by (simp add: prod_eq_iff)
  then have h2: "loss_evaluation ?E example_evaluator empty_world
               = (Inl (ExternalError ''no token left''), ?w') \<or>
         (\<exists>la. loss_evaluation ?E example_evaluator empty_world = (Inr la, ?w') \<and>
               nn_evaluation ?E example_evaluator (la_model_per_token la)
                 = Inl (ExternalError ''no token left''))"
    by blast
  from stage_failure_propagates[OF h1 h2] h1 show ?thesis by simp
qed

end
